theory Spec2Isabelle
  imports Main "HOL-Library.Sublist"
begin

section \<open>Python values, frames and errors\<close>

text \<open>
  A Python variable holds a reference to an object. References are compared by
  identity; \<open>None\<close> is one particular object. The contents of an object live in
  a heap, so two different references may hold equal contents.
\<close>

datatype pyref = PyNone | Ref nat

type_synonym heap = "nat \<Rightarrow> int list"

text \<open>Python's \<open>a == b\<close> on two list objects: equal contents.\<close>

fun py_eq :: "heap \<Rightarrow> pyref \<Rightarrow> pyref \<Rightarrow> bool" where
  "py_eq h (Ref a) (Ref b) = (h a = h b)"
| "py_eq h PyNone PyNone = True"
| "py_eq h PyNone (Ref b) = False"
| "py_eq h (Ref a) PyNone = False"

text \<open>
  Modelled from the spec: \<open>graphlab.canvas._same_object\<close> is not among the source
  files. The spec gives it as the primitive \<open>same_object(a, b)\<close>, true iff \<open>a\<close> and
  \<open>b\<close> are the identical object instance.
\<close>

definition same_object :: "pyref \<Rightarrow> pyref \<Rightarrow> bool" where
  "same_object a b = (a = b)"

text \<open>
  A frame object: \<open>f_locals\<close> is a dict, kept as an association list in its
  iteration order; \<open>co_name\<close> is \<open>f_code.co_name\<close>; \<open>f_back\<close> is the caller's frame or
  \<open>None\<close>.
\<close>

datatype frame =
  Frame (f_locals: "(string \<times> pyref) list") (co_name: string) (f_back: "frame option")

text \<open>
  The exceptions that can arise: reading an attribute of \<open>None\<close>, and a call that
  would go past the interpreter's recursion limit.
\<close>

datatype py_error = AttributeError | RecursionError

text \<open>Reading the attribute \<open>f_back\<close> of a value that may be \<open>None\<close>.\<close>

fun getattr_f_back :: "frame option \<Rightarrow> py_error + frame option" where
  "getattr_f_back None = Inl AttributeError"
| "getattr_f_back (Some fr) = Inr (f_back fr)"

section \<open>canvas/inspect.py\<close>

text \<open>\<open>k.startswith(p)\<close>\<close>

definition startswith :: "string \<Rightarrow> string \<Rightarrow> bool" where
  "startswith k p = prefix p k"

text \<open>\<open>sub in s\<close> on strings: substring search.\<close>

fun str_contains :: "string \<Rightarrow> string \<Rightarrow> bool" where
  "str_contains sub [] = (sub = [])"
| "str_contains sub (c # cs) = (prefix sub (c # cs) \<or> str_contains sub cs)"

text \<open>
  The condition of \<open>__climb_frame_stack\<close>:
  \<open>'self' in frame.f_locals.keys() or 'show' in frame.f_code.co_name\<close>.
\<close>

definition skip_frame :: "frame \<Rightarrow> bool" where
  "skip_frame fr =
     (''self'' \<in> set (map fst (f_locals fr)) \<or> str_contains ''show'' (co_name fr))"

text \<open>
  \<open>__climb_frame_stack(frame)\<close>, with \<open>calls\<close> the number of nested calls of it
  that still fit under the interpreter's recursion limit, this one included:
  every call takes a call level of its own, and a call for which no level is left
  raises. The argument may be \<open>None\<close> (the \<open>f_back\<close> of the outermost frame);
  reading \<open>f_locals\<close> of \<open>None\<close> raises.
\<close>

fun climb_frame_stack :: "nat \<Rightarrow> frame option \<Rightarrow> py_error + frame" where
  "climb_frame_stack 0 c = Inl RecursionError"
| "climb_frame_stack (Suc calls) None = Inl AttributeError"
| "climb_frame_stack (Suc calls) (Some (Frame ls nm bk)) =
     (if skip_frame (Frame ls nm bk) then climb_frame_stack calls bk
      else Inr (Frame ls nm bk))"

text \<open>
  The \<open>for\<close> loop of \<open>_find_variable_name\<close> over the items of the chosen frame's
  locals; the result is the returned tuple.
\<close>

fun scan_locals :: "pyref \<Rightarrow> (string \<times> pyref) list \<Rightarrow> string option \<times> pyref" where
  "scan_locals var [] = (None, PyNone)"
| "scan_locals var ((k, v) # rest) =
     (if startswith k ''_'' then scan_locals var rest
      else if same_object var v then (Some k, v)
      else scan_locals var rest)"

text \<open>
  The frame of the running \<open>_find_variable_name\<close> call itself, as
  \<open>inspect.currentframe()\<close> returns it. Its locals are read only when the first
  statement of the \<open>try\<close> block fails; at that moment \<open>var\<close>, \<open>frame\<close> and
  \<open>finalFrame\<close> are bound, the last two to this very frame, whose identity is
  \<open>fid\<close>.
\<close>

definition own_frame :: "pyref \<Rightarrow> pyref \<Rightarrow> frame option \<Rightarrow> frame" where
  "own_frame fid var caller =
     Frame [(''var'', var), (''frame'', fid), (''finalFrame'', fid)]
       ''_find_variable_name'' caller"

text \<open>
  The \<open>try\<close>/\<open>except\<close> of \<open>_find_variable_name\<close>: the value of \<open>finalFrame\<close>
  afterwards. When \<open>frame.f_back.f_back\<close> raises, \<open>frame\<close> has not been
  reassigned and is still the own frame; when the climb raises, for either
  reason, \<open>frame\<close> is the frame two levels up, which may be \<open>None\<close>.

  \<open>headroom\<close> is the number of call levels that the recursion limit leaves free
  in the body of \<open>_find_variable_name\<close> beyond the first one. The calls that the
  body makes one level deep (\<open>inspect.currentframe\<close>, the first call of the
  climb, \<open>six.iteritems\<close>, \<open>_same_object\<close>) use that first level; each nested
  call of the climb needs one level more. A run in which not even one level is
  free raises at its first call and is not described.
\<close>

definition final_frame :: "nat \<Rightarrow> pyref \<Rightarrow> frame option \<Rightarrow> pyref \<Rightarrow> frame option" where
  "final_frame headroom fid caller var =
     (let frame0 = Some (own_frame fid var caller) in
      case getattr_f_back frame0 of
        Inl e \<Rightarrow> frame0
      | Inr b1 \<Rightarrow>
          (case getattr_f_back b1 of
             Inl e \<Rightarrow> frame0
           | Inr frame2 \<Rightarrow>
               (case climb_frame_stack (Suc headroom) frame2 of
                  Inl e \<Rightarrow> frame2
                | Inr ff \<Rightarrow> Some ff)))"

text \<open>
  \<open>_find_variable_name(var)\<close>, called from the frame \<open>caller\<close>.
  \<open>finalFrame.f_locals\<close> is outside the \<open>try\<close>, so it raises when \<open>finalFrame\<close> is
  \<open>None\<close>.
\<close>

definition find_variable_name ::
  "nat \<Rightarrow> pyref \<Rightarrow> frame option \<Rightarrow> pyref \<Rightarrow> py_error + (string option \<times> pyref)" where
  "find_variable_name headroom fid caller var =
     (case final_frame headroom fid caller var of
        None \<Rightarrow> Inl AttributeError
      | Some ff \<Rightarrow> Inr (scan_locals var (f_locals ff)))"

text \<open>
  Modelled from the spec: the canvas target returned by \<open>get_target()\<close> is not
  among the source files. The spec gives it as a sink that accepts calls
  \<open>register(path, object)\<close>; it is kept as its identity and the calls of
  \<open>add_variable\<close> it has received, oldest first, each with its path tuple and
  its object.
\<close>

record canvas_target =
  target_id :: pyref
  added :: "(string list \<times> pyref) list"

definition add_variable :: "canvas_target \<Rightarrow> string list \<Rightarrow> pyref \<Rightarrow> canvas_target" where
  "add_variable tgt path obj = tgt\<lparr>added := added tgt @ [(path, obj)]\<rparr>"

text \<open>
  The frame of a running \<open>find_vars\<close> call at the moment it calls
  \<open>_find_variable_name\<close>.
\<close>

definition find_vars_frame :: "canvas_target \<Rightarrow> pyref \<Rightarrow> frame option \<Rightarrow> frame" where
  "find_vars_frame tgt var caller =
     Frame [(''var'', var), (''target'', target_id tgt)] ''find_vars'' caller"

text \<open>
  \<open>find_vars(var)\<close>, called from the frame \<open>caller\<close>, with \<open>get_target()\<close>
  returning \<open>tgt\<close> and \<open>headroom\<close> as in the call of \<open>_find_variable_name\<close> it
  makes. The result is the returned name (or the exception) and the target
  afterwards.
\<close>

definition find_vars ::
  "nat \<Rightarrow> canvas_target \<Rightarrow> pyref \<Rightarrow> frame option \<Rightarrow> pyref
     \<Rightarrow> (py_error + string option) \<times> canvas_target" where
  "find_vars headroom tgt fid caller var =
     (case find_variable_name headroom fid (Some (find_vars_frame tgt var caller)) var of
        Inl e \<Rightarrow> (Inl e, tgt)
      | Inr (variable_name, variable) \<Rightarrow>
          (case variable_name of
             None \<Rightarrow> (Inr None, tgt)
           | Some n \<Rightarrow> (Inr (Some n), add_variable tgt [n] variable)))"

text \<open>The frames of a chain, innermost first.\<close>

fun chain :: "frame option \<Rightarrow> frame list" where
  "chain None = []"
| "chain (Some (Frame ls nm bk)) = Frame ls nm bk # chain bk"

text \<open>The outermost frame of the chain that starts at a frame.\<close>

fun top_frame :: "frame \<Rightarrow> frame" where
  "top_frame (Frame ls nm None) = Frame ls nm None"
| "top_frame (Frame ls nm (Some b)) = top_frame b"

text \<open>
  \<open>__climb_frame_stack\<close> with a bound \<open>n\<close> on the number of calls made: \<open>None\<close>
  when the bound is used up before the recursion ends.
\<close>

fun climb_fuel :: "nat \<Rightarrow> nat \<Rightarrow> frame option \<Rightarrow> (py_error + frame) option" where
  "climb_fuel 0 calls c = None"
| "climb_fuel (Suc n) 0 c = Some (Inl RecursionError)"
| "climb_fuel (Suc n) (Suc calls) None = Some (Inl AttributeError)"
| "climb_fuel (Suc n) (Suc calls) (Some (Frame ls nm bk)) =
     (if skip_frame (Frame ls nm bk) then climb_fuel n calls bk
      else Some (Inr (Frame ls nm bk)))"

text \<open>
  The spec's reading of a resolution result: the name and the object are absent
  together or present together.
\<close>

definition well_formed_result :: "string option \<times> pyref \<Rightarrow> bool" where
  "well_formed_result r = ((fst r = None) = (snd r = PyNone))"

section \<open>distributed/toolkits/classifier/logistic\_classifier.py\<close>

text \<open>
  \<open>str.lower()\<close>. A Python string is kept as its UTF-8 bytes. On a string of
  ASCII characters only, the capital letters \<open>A\<close> to \<open>Z\<close> are replaced by the
  small ones and every other character is kept. On a string with a character
  outside ASCII the result follows the interpreter's Unicode tables, where a
  character's image can depend on its neighbours; the tables are not part of
  the repository, so that mapping is the parameter \<open>unicode_lower\<close>.
\<close>

definition is_ascii :: "char \<Rightarrow> bool" where
  "is_ascii c = (of_char c < (128 :: nat))"

definition capitals :: string where
  "capitals = ''ABCDEFGHIJKLMNOPQRSTUVWXYZ''"

definition smalls :: string where
  "smalls = ''abcdefghijklmnopqrstuvwxyz''"

definition lower_char :: "char \<Rightarrow> char" where
  "lower_char c = (case map_of (zip capitals smalls) c of None \<Rightarrow> c | Some l \<Rightarrow> l)"

definition lower :: "(string \<Rightarrow> string) \<Rightarrow> string \<Rightarrow> string" where
  "lower unicode_lower s =
     (if list_all is_ascii s then map lower_char s else unicode_lower s)"

text \<open>
  The arguments of \<open>submit_training_job\<close>. All but the solver name are passed on
  untouched, so they are kept as object references.
\<close>

record job_params =
  env :: pyref
  dataset :: pyref
  target :: pyref
  features :: pyref
  l2_penalty :: pyref
  l1_penalty :: pyref
  solver :: string
  feature_rescaling :: pyref
  convergence_threshold :: pyref
  step_size :: pyref
  lbfgs_memory_level :: pyref
  max_iterations :: pyref
  class_weights :: pyref
  validation_set :: pyref

text \<open>A value passed to the backend: an object handed through, or a string built here.\<close>

datatype pyval = Obj pyref | Str string

text \<open>
  The calls that leave the module: the metric tracker's \<open>track\<close> and
  \<open>_sl.create\<close> with its positional and keyword arguments.
\<close>

datatype ext_call = Track string | SlCreate "pyval list" "(string \<times> pyval) list"

fun is_create :: "ext_call \<Rightarrow> bool" where
  "is_create (SlCreate args kwargs) = True"
| "is_create (Track ev) = False"

text \<open>
  \<open>submit_training_job\<close>, with the backend \<open>_sl.create\<close> and the Unicode part
  of \<open>str.lower\<close> as parameters. The result is the calls made, in order, and the
  returned value.
\<close>

definition submit_training_job ::
  "(string \<Rightarrow> string) \<Rightarrow> (pyval list \<Rightarrow> (string \<times> pyval) list \<Rightarrow> 'r) \<Rightarrow> job_params
     \<Rightarrow> ext_call list \<times> 'r" where
  "submit_training_job unicode_lower sl_create p =
     (let model_name = ''classifier_logistic_regression'';
          solver' = lower unicode_lower (solver p);
          args = [Obj (dataset p), Obj (target p), Str model_name];
          kwargs =
            [(''env'', Obj (env p)), (''features'', Obj (features p)),
             (''validation_set'', Obj (validation_set p)),
             (''l2_penalty'', Obj (l2_penalty p)), (''l1_penalty'', Obj (l1_penalty p)),
             (''feature_rescaling'', Obj (feature_rescaling p)),
             (''convergence_threshold'', Obj (convergence_threshold p)),
             (''step_size'', Obj (step_size p)),
             (''solver'', Str solver'),
             (''lbfgs_memory_level'', Obj (lbfgs_memory_level p)),
             (''max_iterations'', Obj (max_iterations p)),
             (''class_weights'', Obj (class_weights p))];
          dml_obj = sl_create args kwargs
      in ([Track ''distributed.toolkit.classifier.logistic_classifier.submit_training_job'',
           SlCreate args kwargs], dml_obj))"

section \<open>Example stacks\<close>

text \<open>
  A module-level user frame binding the object \<open>Ref 7\<close> under three names, a
  display wrapper called from it, and two nested method calls below that.
\<close>

definition user_frame :: frame where
  "user_frame =
     Frame [(''_'', Ref 7), (''data'', Ref 7), (''alias'', Ref 7), (''other'', Ref 8)]
       ''<module>'' None"

definition show_frame :: frame where
  "show_frame = Frame [(''x'', Ref 7)] ''_show_all'' (Some user_frame)"

definition method_frame :: frame where
  "method_frame = Frame [(''self'', Ref 1), (''sf'', Ref 7)] ''plot'' (Some show_frame)"

definition inner_method_frame :: frame where
  "inner_method_frame =
     Frame [(''arg'', Ref 7), (''self'', Ref 2)] ''render'' (Some method_frame)"

text \<open>\<open>n\<close> nested method calls made from the frame \<open>base\<close>.\<close>

fun method_calls :: "nat \<Rightarrow> frame \<Rightarrow> frame" where
  "method_calls 0 base = base"
| "method_calls (Suc n) base =
     Frame [(''self'', Ref 1), (''inner'', Ref 7)] ''step'' (Some (method_calls n base))"

text \<open>Two nested method calls with no user frame above them.\<close>

definition top_method_frame :: frame where
  "top_method_frame = Frame [(''self'', Ref 1), (''outer'', Ref 7)] ''run'' None"

definition nested_method_frame :: frame where
  "nested_method_frame =
     Frame [(''self'', Ref 2), (''inner'', Ref 7)] ''step'' (Some top_method_frame)"

text \<open>A user frame that binds \<open>Ref 7\<close> only under an underscore name.\<close>

definition hidden_frame :: frame where
  "hidden_frame = Frame [(''_hidden'', Ref 7), (''z'', Ref 8)] ''<module>'' None"

text \<open>
  A user frame after \<open>b = [1, 2, 3]; a = [1, 2, 3]; y = b; x = a\<close>, and a heap
  for it.
\<close>

definition twin_frame :: frame where
  "twin_frame = Frame [(''y'', Ref 2), (''x'', Ref 1)] ''<module>'' None"

definition twin_heap :: heap where
  "twin_heap = (\<lambda>a. [1, 2, 3])"

text \<open>A user frame with a variable bound to \<open>None\<close>.\<close>

definition none_frame :: frame where
  "none_frame = Frame [(''x'', PyNone), (''data'', Ref 7)] ''<module>'' None"

definition empty_target :: canvas_target where
  "empty_target = \<lparr>target_id = Ref 50, added = []\<rparr>"

text \<open>
  A stand-in for the Unicode tables that knows one string: the UTF-8 bytes of
  \<open>E acute, Z\<close>, whose lowercase is \<open>e acute, z\<close>.
\<close>

definition example_unicode_lower :: "string \<Rightarrow> string" where
  "example_unicode_lower s =
     (if s = [CHR 0xC3, CHR 0x89, CHR ''Z''] then [CHR 0xC3, CHR 0xA9, CHR ''z''] else s)"

definition example_job :: job_params where
  "example_job =
     \<lparr>env = Ref 1, dataset = Ref 2, target = Ref 3, features = PyNone,
      l2_penalty = Ref 4, l1_penalty = Ref 5, solver = ''LBFGS'',
      feature_rescaling = Ref 6, convergence_threshold = Ref 7, step_size = Ref 8,
      lbfgs_memory_level = Ref 9, max_iterations = Ref 10, class_weights = PyNone,
      validation_set = PyNone\<rparr>"

section \<open>Properties of the helpers\<close>

lemma str_contains_iff: "str_contains sub s \<longleftrightarrow> (\<exists>p q. s = p @ sub @ q)"
proof (induction s)
  case Nil
  then show ?case by auto
next
  case (Cons c cs)
  have "(\<exists>p q. c # cs = p @ sub @ q) \<longleftrightarrow> prefix sub (c # cs) \<or> (\<exists>p q. cs = p @ sub @ q)"
    using sublist_Cons_right [of sub c cs] by (simp add: sublist_def)
  with Cons show ?case by simp
qed

lemma self_in_keys_iff:
  "''self'' \<in> set (map fst ls) \<longleftrightarrow> (\<exists>v. (''self'', v) \<in> set ls)"
  by force

lemma climb_frame_stack_Some:
  "climb_frame_stack (Suc calls) (Some fr) =
     (if skip_frame fr then climb_frame_stack calls (f_back fr) else Inr fr)"
  by (cases fr) simp

lemma chain_Some: "chain (Some fr) = fr # chain (f_back fr)"
  by (cases fr) simp

lemma climb_frame_stack_chain:
  "chain c = skipped @ fr # rest \<Longrightarrow> list_all skip_frame skipped \<Longrightarrow> \<not> skip_frame fr
     \<Longrightarrow> length skipped < calls \<Longrightarrow> climb_frame_stack calls c = Inr fr"
proof (induction skipped arbitrary: c calls)
  case Nil
  then obtain f where c: "c = Some f" by (cases c) auto
  from Nil obtain k where k: "calls = Suc k" by (cases calls) auto
  from c Nil have "f = fr" by (simp add: chain_Some)
  with c k Nil show ?case by (simp add: climb_frame_stack_Some)
next
  case (Cons s skipped)
  then obtain f where c: "c = Some f" by (cases c) auto
  from Cons.prems obtain k where k: "calls = Suc k" and len: "length skipped < k"
    by (cases calls) auto
  from c Cons.prems have f: "f = s" and rest: "chain (f_back f) = skipped @ fr # rest"
    by (auto simp add: chain_Some)
  from Cons.prems have "skip_frame s" and "list_all skip_frame skipped" by simp_all
  with Cons.IH [OF rest _ Cons.prems(3) len] c f k show ?case
    by (simp add: climb_frame_stack_Some)
qed

lemma climb_frame_stack_all_skipped:
  "list_all skip_frame (chain c)
     \<Longrightarrow> climb_frame_stack calls c
           = Inl (if length (chain c) < calls then AttributeError else RecursionError)"
  by (induction calls c rule: climb_frame_stack.induct) (auto split: if_splits)

lemma climb_frame_stack_method_calls:
  "calls \<le> n \<Longrightarrow> climb_frame_stack calls (Some (method_calls n base)) = Inl RecursionError"
proof (induction calls arbitrary: n)
  case 0
  show ?case by simp
next
  case (Suc calls)
  then obtain m where "n = Suc m" and "calls \<le> m" by (cases n) auto
  with Suc.IH [of m] show ?case by (simp add: skip_frame_def)
qed

lemma dropWhile_skip_method_calls:
  "dropWhile skip_frame (chain (Some (method_calls n base)))
     = dropWhile skip_frame (chain (Some base))"
  by (induction n) (simp_all add: skip_frame_def)

lemma scan_locals_skip_prefix:
  "list_all (\<lambda>(k, v). startswith k ''_'' \<or> \<not> same_object var v) pre
     \<Longrightarrow> scan_locals var (pre @ ls) = scan_locals var ls"
  by (induction pre) auto

lemma scan_locals_Some:
  "scan_locals var ls = (Some n, v)
     \<Longrightarrow> (n, v) \<in> set ls \<and> \<not> startswith n ''_'' \<and> v = var"
  by (induction var ls rule: scan_locals.induct)
     (auto simp: same_object_def split: if_splits)

lemma scan_locals_None:
  "scan_locals var ls = (None, v) \<Longrightarrow> v = PyNone"
  by (induction var ls rule: scan_locals.induct) (auto split: if_splits)

lemma scan_locals_no_match:
  "list_all (\<lambda>(k, v). startswith k ''_'' \<or> \<not> same_object var v) ls
     \<Longrightarrow> scan_locals var ls = (None, PyNone)"
  using scan_locals_skip_prefix [of var ls "[]"] by simp

lemma scan_locals_None_iff:
  "fst (scan_locals var ls) = None
     \<longleftrightarrow> list_all (\<lambda>(k, v). startswith k ''_'' \<or> \<not> same_object var v) ls"
  by (induction var ls rule: scan_locals.induct) auto

lemma scan_locals_first:
  "list_all (\<lambda>(k, v). startswith k ''_'' \<or> \<not> same_object var v) pre
     \<Longrightarrow> \<not> startswith n ''_''
     \<Longrightarrow> scan_locals var (pre @ (n, var) # post) = (Some n, var)"
  by (simp add: scan_locals_skip_prefix same_object_def)

lemma scan_locals_only_name:
  "(x, a) \<in> set ls \<Longrightarrow> \<not> startswith x ''_''
     \<Longrightarrow> list_all (\<lambda>(k, v). same_object a v \<longrightarrow> k = x) ls
     \<Longrightarrow> scan_locals a ls = (Some x, a)"
  by (induction a ls rule: scan_locals.induct) (auto simp: same_object_def)

lemma final_frame_find_vars:
  "final_frame headroom fid (Some (Frame ls nm c)) var =
     (case climb_frame_stack (Suc headroom) c of Inl e \<Rightarrow> c | Inr ff \<Rightarrow> Some ff)"
  by (simp add: final_frame_def own_frame_def)

lemma find_vars_cases:
  "find_vars headroom tgt fid caller var =
     (case find_variable_name headroom fid (Some (find_vars_frame tgt var caller)) var of
        Inl e \<Rightarrow> (Inl e, tgt)
      | Inr (None, v) \<Rightarrow> (Inr None, tgt)
      | Inr (Some n, v) \<Rightarrow> (Inr (Some n), add_variable tgt [n] v))"
  by (simp add: find_vars_def split: sum.splits option.splits prod.splits)

lemma find_variable_name_Some:
  "find_variable_name headroom fid caller var = Inr (Some n, v)
     \<Longrightarrow> \<not> startswith n ''_'' \<and> v = var"
  by (auto simp: find_variable_name_def split: option.splits dest: scan_locals_Some)

lemma find_variable_name_None:
  "find_variable_name headroom fid caller var = Inr (None, v) \<Longrightarrow> v = PyNone"
  by (auto simp: find_variable_name_def split: option.splits dest: scan_locals_None)

lemma find_variable_name_no_second_frame:
  "find_variable_name headroom fid (Some (Frame ls nm None)) var = Inl AttributeError"
  by (simp add: find_variable_name_def final_frame_def own_frame_def)

lemma find_variable_name_no_caller:
  "find_variable_name headroom fid None var = Inr (Some ''var'', var)"
  by (simp add: find_variable_name_def final_frame_def own_frame_def startswith_def same_object_def)

lemma chain_f_back_shorter: "length (chain (f_back fr)) < length (chain (Some fr))"
  by (simp add: chain_Some)

lemma climb_fuel_enough:
  "length (chain c) < n \<Longrightarrow> climb_fuel n calls c = Some (climb_frame_stack calls c)"
  by (induction n calls c rule: climb_fuel.induct) simp_all

lemma lower_char_capital:
  "c \<in> set capitals \<Longrightarrow> (of_char (lower_char c) :: nat) = of_char c + 32"
  unfolding capitals_def set_simps insert_iff empty_iff
  by (elim disjE) (simp_all add: lower_char_def capitals_def smalls_def)

lemma lower_char_other: "c \<notin> set capitals \<Longrightarrow> lower_char c = c"
  by (simp add: lower_char_def capitals_def smalls_def)

lemma capital_codes: "map of_char capitals = [65..<91 :: nat]"
  by (simp add: capitals_def)

lemma in_capitals:
  "c \<in> set capitals \<longleftrightarrow> 65 \<le> (of_char c :: nat) \<and> (of_char c :: nat) \<le> 90"
proof -
  have "c \<in> set capitals \<longleftrightarrow> (of_char c :: nat) \<in> of_char ` set capitals"
    by (rule inj_image_mem_iff [symmetric]) (rule inj_of_char)
  also have "(of_char ` set capitals :: nat set) = set [65..<91]"
    unfolding capital_codes [symmetric] by (rule set_map [symmetric])
  also have "(of_char c :: nat) \<in> set [65..<91]
      \<longleftrightarrow> 65 \<le> (of_char c :: nat) \<and> (of_char c :: nat) \<le> 90"
    unfolding set_upt atLeastLessThan_iff by arith
  finally show ?thesis .
qed

lemma of_char_lower_char:
  "(of_char (lower_char c) :: nat) =
     (if 65 \<le> (of_char c :: nat) \<and> (of_char c :: nat) \<le> 90
      then of_char c + 32 else of_char c)"
proof (cases "c \<in> set capitals")
  case True
  then have "65 \<le> (of_char c :: nat) \<and> (of_char c :: nat) \<le> 90"
    using in_capitals [of c] by blast
  with lower_char_capital [OF True] show ?thesis by simp
next
  case False
  then have "\<not> (65 \<le> (of_char c :: nat) \<and> (of_char c :: nat) \<le> 90)"
    using in_capitals [of c] by blast
  with lower_char_other [OF False] show ?thesis by simp
qed

lemma lower_ascii:
  "list_all is_ascii s
     \<Longrightarrow> map of_char (lower unicode_lower s)
           = map (\<lambda>c. if 65 \<le> (of_char c :: nat) \<and> (of_char c :: nat) \<le> 90
                       then of_char c + 32 else (of_char c :: nat)) s"
  by (simp add: lower_def of_char_lower_char)

lemma lower_not_ascii:
  "\<not> list_all is_ascii s \<Longrightarrow> lower unicode_lower s = unicode_lower s"
  by (simp add: lower_def)

lemma climb_frame_stack_pos_Some:
  "0 < calls \<Longrightarrow> climb_frame_stack calls (Some fr) =
     (if skip_frame fr then climb_frame_stack (calls - 1) (f_back fr) else Inr fr)"
  by (cases calls) (simp_all add: climb_frame_stack_Some)

lemma climb_frame_stack_pos_None:
  "0 < calls \<Longrightarrow> climb_frame_stack calls None = Inl AttributeError"
  by (cases calls) simp_all

lemma f_locals_method_calls:
  "0 < n \<Longrightarrow> f_locals (method_calls n base) = [(''self'', Ref 1), (''inner'', Ref 7)]"
  by (cases n) simp_all

lemma is_ascii_eq: "is_ascii = (\<lambda>c. (of_char c :: nat) < 128)"
  by (simp add: fun_eq_iff is_ascii_def)

section \<open>Stack climbing\<close>

text \<open>
  C2, as stated, fails on a deep stack: below 500 nested method calls, with a
  recursion limit that leaves fewer call levels than that, the climb raises
  before it reaches the user frame, the failure is absorbed, and the frame that
  is scanned is the starting frame, not the first frame that is not skipped.
\<close>

theorem deep_stack_scans_start_frame:
  "dropWhile skip_frame (chain (Some (method_calls 500 user_frame))) = [user_frame]
   \<and> scan_locals (Ref 7) (f_locals user_frame) = (Some ''data'', Ref 7)
   \<and> climb_frame_stack (Suc 495) (Some (method_calls 500 user_frame)) = Inl RecursionError
   \<and> find_variable_name 495 (Ref 100)
        (Some (find_vars_frame empty_target (Ref 7) (Some (method_calls 500 user_frame)))) (Ref 7)
       = Inr (Some ''inner'', Ref 7)"
proof -
  have a: "dropWhile skip_frame (chain (Some (method_calls 500 user_frame))) = [user_frame]"
    by (simp add: dropWhile_skip_method_calls) (simp add: user_frame_def skip_frame_def)
  have b: "scan_locals (Ref 7) (f_locals user_frame) = (Some ''data'', Ref 7)"
    by (simp add: user_frame_def startswith_def same_object_def)
  have c: "climb_frame_stack (Suc 495) (Some (method_calls 500 user_frame)) = Inl RecursionError"
    by (rule climb_frame_stack_method_calls) simp
  have c': "climb_frame_stack 496 (Some (method_calls 500 user_frame)) = Inl RecursionError"
    by (rule climb_frame_stack_method_calls) simp
  have d: "find_variable_name 495 (Ref 100)
        (Some (find_vars_frame empty_target (Ref 7) (Some (method_calls 500 user_frame)))) (Ref 7)
       = Inr (Some ''inner'', Ref 7)"
    by (simp add: find_variable_name_def find_vars_frame_def final_frame_find_vars c'
        f_locals_method_calls startswith_def same_object_def)
  from a b c d show ?thesis by simp
qed

text \<open>
  C2, amended. A frame is skipped exactly when its locals contain a binding
  named \<open>self\<close> or the name of its function contains the substring \<open>show\<close>. When
  the frames to skip are no more than the nested calls the recursion limit
  still allows, climbing passes every one of them and stops at the first frame
  that satisfies neither condition, and that frame is the one whose locals are
  scanned.
\<close>

theorem climb_skips_self_or_show:
  "(skip_frame fr \<longleftrightarrow>
      (\<exists>v. (''self'', v) \<in> set (f_locals fr)) \<or> (\<exists>p q. co_name fr = p @ ''show'' @ q))
   \<and> (chain c = skipped @ user # rest \<and> list_all skip_frame skipped \<and> \<not> skip_frame user
        \<and> length skipped \<le> headroom
        \<longrightarrow> climb_frame_stack (Suc headroom) c = Inr user
          \<and> find_variable_name headroom fid (Some (Frame ls nm c)) var
              = Inr (scan_locals var (f_locals user)))"
proof -
  have a: "skip_frame fr \<longleftrightarrow>
      (\<exists>v. (''self'', v) \<in> set (f_locals fr)) \<or> (\<exists>p q. co_name fr = p @ ''show'' @ q)"
    unfolding skip_frame_def str_contains_iff self_in_keys_iff ..
  have b: "climb_frame_stack (Suc headroom) c = Inr user
          \<and> find_variable_name headroom fid (Some (Frame ls nm c)) var
              = Inr (scan_locals var (f_locals user))"
    if "chain c = skipped @ user # rest" "list_all skip_frame skipped" "\<not> skip_frame user"
      "length skipped \<le> headroom"
  proof -
    from that have "climb_frame_stack (Suc headroom) c = Inr user"
      using climb_frame_stack_chain [of c skipped user rest "Suc headroom"] by simp
    then show ?thesis
      by (simp add: find_variable_name_def final_frame_find_vars)
  qed
  from a b show ?thesis by blast
qed

theorem climb_skips_self_or_show_witness:
  "chain (Some inner_method_frame)
     = [inner_method_frame, method_frame, show_frame] @ user_frame # []
   \<and> list_all skip_frame [inner_method_frame, method_frame, show_frame]
   \<and> \<not> skip_frame user_frame
   \<and> length [inner_method_frame, method_frame, show_frame] \<le> 900
   \<and> climb_frame_stack (Suc 900) (Some inner_method_frame) = Inr user_frame
   \<and> find_variable_name 900 (Ref 100) (Some (Frame [] ''find_vars'' (Some inner_method_frame)))
        (Ref 7) = Inr (Some ''data'', Ref 7)"
  using climb_skips_self_or_show [of user_frame "Some inner_method_frame"
      "[inner_method_frame, method_frame, show_frame]" user_frame "[]" 900
      "Ref 100" "[]" "''find_vars''" "Ref 7"]
  by (simp add: inner_method_frame_def method_frame_def show_frame_def user_frame_def
      skip_frame_def startswith_def climb_frame_stack_pos_Some
      climb_frame_stack_pos_None same_object_def)

section \<open>Scanning the chosen frame\<close>

text \<open>
  C1. When the target object is bound in the chosen frame under a name that does
  not start with an underscore, and no earlier binding in the frame's iteration
  order is such a binding of the target, \<open>_find_variable_name\<close> returns that name
  together with the object.
\<close>

theorem resolve_returns_first_bound_name:
  "final_frame headroom fid caller obj = Some ff \<Longrightarrow> f_locals ff = pre @ (n, obj) # post
     \<Longrightarrow> \<not> startswith n ''_''
     \<Longrightarrow> list_all (\<lambda>(k, v). startswith k ''_'' \<or> \<not> same_object obj v) pre
     \<Longrightarrow> find_variable_name headroom fid caller obj = Inr (Some n, obj)"
  by (simp add: find_variable_name_def scan_locals_skip_prefix same_object_def)

theorem resolve_returns_first_bound_name_witness:
  "final_frame 900 (Ref 100) (Some (find_vars_frame empty_target (Ref 7) (Some method_frame))) (Ref 7)
     = Some user_frame
   \<and> f_locals user_frame = [(''_'', Ref 7)] @ (''data'', Ref 7) # [(''alias'', Ref 7), (''other'', Ref 8)]
   \<and> \<not> startswith ''data'' ''_''
   \<and> list_all (\<lambda>(k, v). startswith k ''_'' \<or> \<not> same_object (Ref 7) v) [(''_'', Ref 7)]
   \<and> find_variable_name 900 (Ref 100) (Some (find_vars_frame empty_target (Ref 7) (Some method_frame))) (Ref 7)
     = Inr (Some ''data'', Ref 7)"
  using resolve_returns_first_bound_name [of 900 "Ref 100" "Some (find_vars_frame empty_target (Ref 7) (Some method_frame))"
      "Ref 7" user_frame "[(''_'', Ref 7)]" "''data''" "[(''alias'', Ref 7), (''other'', Ref 8)]"]
  by (simp add: final_frame_def own_frame_def find_vars_frame_def method_frame_def
      show_frame_def user_frame_def skip_frame_def startswith_def climb_frame_stack_pos_Some
      climb_frame_stack_pos_None)

text \<open>
  C3. Matching is by identity. For two different objects \<open>a\<close> and \<open>b\<close> with equal
  contents, bound in the chosen frame to \<open>x\<close> and \<open>y\<close>, with \<open>x\<close> the name of \<open>a\<close>
  there, resolving \<open>a\<close> returns \<open>x\<close>, which is not \<open>y\<close>.
\<close>

theorem resolve_matches_identity_not_equality:
  assumes "a \<noteq> b" and "py_eq h a b"
    and "final_frame headroom fid caller a = Some ff"
    and "distinct (map fst (f_locals ff))"
    and "(x, a) \<in> set (f_locals ff)" and "(y, b) \<in> set (f_locals ff)"
    and "\<not> startswith x ''_''"
    and "list_all (\<lambda>(k, v). same_object a v \<longrightarrow> k = x) (f_locals ff)"
  shows "find_variable_name headroom fid caller a = Inr (Some x, a) \<and> x \<noteq> y
    \<and> fst (scan_locals a (f_locals ff)) \<noteq> Some y"
proof -
  from assms(5,7,8) have r: "scan_locals a (f_locals ff) = (Some x, a)"
    by (rule scan_locals_only_name)
  from assms(1,4,5,6) have "x \<noteq> y"
    by (auto dest: eq_key_imp_eq_value)
  with r assms(3) show ?thesis by (simp add: find_variable_name_def)
qed

theorem resolve_matches_identity_not_equality_witness:
  "Ref 1 \<noteq> Ref 2 \<and> py_eq twin_heap (Ref 1) (Ref 2)
   \<and> final_frame 900 (Ref 100) (Some (find_vars_frame empty_target (Ref 1) (Some twin_frame))) (Ref 1)
       = Some twin_frame
   \<and> distinct (map fst (f_locals twin_frame))
   \<and> (''x'', Ref 1) \<in> set (f_locals twin_frame) \<and> (''y'', Ref 2) \<in> set (f_locals twin_frame)
   \<and> \<not> startswith ''x'' ''_''
   \<and> list_all (\<lambda>(k, v). same_object (Ref 1) v \<longrightarrow> k = ''x'') (f_locals twin_frame)
   \<and> find_variable_name 900 (Ref 100) (Some (find_vars_frame empty_target (Ref 1) (Some twin_frame))) (Ref 1)
       = Inr (Some ''x'', Ref 1)"
  using resolve_matches_identity_not_equality [of "Ref 1" "Ref 2" twin_heap 900 "Ref 100"
      "Some (find_vars_frame empty_target (Ref 1) (Some twin_frame))" twin_frame "''x''" "''y''"]
  by (simp add: final_frame_def own_frame_def find_vars_frame_def twin_frame_def twin_heap_def
      skip_frame_def startswith_def climb_frame_stack_pos_Some
      climb_frame_stack_pos_None same_object_def)

text \<open>
  C6. A name that starts with an underscore is never returned and never
  registered. When every binding of the target in the chosen frame has such a
  name, the result is \<open>(None, None)\<close> and the target is left as it was.
\<close>

theorem underscore_names_never_returned:
  "(find_variable_name headroom fid c var = Inr (Some n, v) \<longrightarrow> \<not> startswith n ''_'')
   \<and> ((path, obj) \<in> set (added (snd (find_vars headroom tgt fid caller var)))
        \<longrightarrow> (path, obj) \<in> set (added tgt) \<or> (\<exists>m. path = [m] \<and> \<not> startswith m ''_''))
   \<and> (final_frame headroom fid (Some (find_vars_frame tgt var caller)) var = Some ff
        \<and> list_all (\<lambda>(k, v). same_object var v \<longrightarrow> startswith k ''_'') (f_locals ff)
        \<longrightarrow> find_variable_name headroom fid (Some (find_vars_frame tgt var caller)) var
              = Inr (None, PyNone)
          \<and> find_vars headroom tgt fid caller var = (Inr None, tgt))"
proof -
  have a: "find_variable_name headroom fid c var = Inr (Some n, v) \<longrightarrow> \<not> startswith n ''_''"
    by (auto dest: find_variable_name_Some)
  have b: "(path, obj) \<in> set (added (snd (find_vars headroom tgt fid caller var)))
        \<longrightarrow> (path, obj) \<in> set (added tgt) \<or> (\<exists>m. path = [m] \<and> \<not> startswith m ''_'')"
    by (auto simp: find_vars_cases add_variable_def split: sum.splits option.splits prod.splits
        dest: find_variable_name_Some)
  have c: "find_variable_name headroom fid (Some (find_vars_frame tgt var caller)) var
              = Inr (None, PyNone)
          \<and> find_vars headroom tgt fid caller var = (Inr None, tgt)"
    if "final_frame headroom fid (Some (find_vars_frame tgt var caller)) var = Some ff"
      and "list_all (\<lambda>(k, v). same_object var v \<longrightarrow> startswith k ''_'') (f_locals ff)"
  proof -
    from that(2) have "list_all (\<lambda>(k, v). startswith k ''_'' \<or> \<not> same_object var v) (f_locals ff)"
      by (auto simp: list_all_iff)
    then have "scan_locals var (f_locals ff) = (None, PyNone)" by (rule scan_locals_no_match)
    with that(1) show ?thesis by (simp add: find_vars_cases find_variable_name_def)
  qed
  from a b c show ?thesis by blast
qed

theorem underscore_names_never_returned_witness:
  "final_frame 900 (Ref 100) (Some (find_vars_frame empty_target (Ref 7) (Some hidden_frame))) (Ref 7)
       = Some hidden_frame
   \<and> list_all (\<lambda>(k, v). same_object (Ref 7) v \<longrightarrow> startswith k ''_'') (f_locals hidden_frame)
   \<and> find_variable_name 900 (Ref 100) (Some (find_vars_frame empty_target (Ref 7) (Some hidden_frame))) (Ref 7)
       = Inr (None, PyNone)
   \<and> find_vars 900 empty_target (Ref 100) (Some hidden_frame) (Ref 7) = (Inr None, empty_target)
   \<and> find_variable_name 900 (Ref 100) (Some (find_vars_frame empty_target (Ref 7) (Some user_frame))) (Ref 7)
        = Inr (Some ''data'', Ref 7)
   \<and> ([''data''], Ref 7) \<in> set (added (snd (find_vars 900 empty_target (Ref 100) (Some user_frame) (Ref 7))))
   \<and> \<not> startswith ''data'' ''_''"
  using underscore_names_never_returned [of 900 "Ref 100" "Some (find_vars_frame empty_target (Ref 7) (Some user_frame))" "Ref 7"
      "''data''" "Ref 7" "[''data'']" "Ref 7" empty_target "Some hidden_frame" hidden_frame]
    underscore_names_never_returned [of 900 "Ref 100" "Some (find_vars_frame empty_target (Ref 7) (Some user_frame))" "Ref 7"
      "''data''" "Ref 7" "[''data'']" "Ref 7" empty_target "Some user_frame" user_frame]
  by (simp add: find_vars_def find_variable_name_def add_variable_def final_frame_def
      own_frame_def find_vars_frame_def hidden_frame_def user_frame_def
      skip_frame_def startswith_def climb_frame_stack_pos_Some
      climb_frame_stack_pos_None same_object_def empty_target_def)

text \<open>
  C8, as stated, fails when the target is \<open>None\<close> itself and a variable of the
  chosen frame is bound to \<open>None\<close>: the name is present and the object is \<open>None\<close>,
  and \<open>find_vars\<close> registers it.
\<close>

theorem result_pair_partial_for_none:
  "find_variable_name 900 (Ref 100) (Some (find_vars_frame empty_target PyNone (Some none_frame))) PyNone
     = Inr (Some ''x'', PyNone)
   \<and> \<not> well_formed_result (Some ''x'', PyNone)
   \<and> find_vars 900 empty_target (Ref 100) (Some none_frame) PyNone
     = (Inr (Some ''x''), empty_target\<lparr>added := [([''x''], PyNone)]\<rparr>)"
  by (simp add: find_vars_def find_variable_name_def final_frame_def own_frame_def find_vars_frame_def
      none_frame_def skip_frame_def startswith_def climb_frame_stack_pos_Some
      climb_frame_stack_pos_None same_object_def well_formed_result_def
      empty_target_def add_variable_def)

text \<open>
  C8, amended. A returned pair without a name has no object; a returned pair with
  a name carries the target object itself. So when the target is not \<open>None\<close>,
  the name and the object are absent together or present together.
\<close>

theorem result_pair_shape:
  "find_variable_name headroom fid caller var = Inr (name, obj)
     \<Longrightarrow> (name = None \<longrightarrow> obj = PyNone) \<and> (name \<noteq> None \<longrightarrow> same_object var obj)
       \<and> (var \<noteq> PyNone \<longrightarrow> well_formed_result (name, obj))"
  by (cases name)
     (auto simp: well_formed_result_def same_object_def
       dest: find_variable_name_None find_variable_name_Some)

theorem result_pair_shape_witness:
  "find_variable_name 900 (Ref 100) (Some (find_vars_frame empty_target (Ref 7) (Some none_frame))) (Ref 7)
     = Inr (Some ''data'', Ref 7)
   \<and> same_object (Ref 7) (Ref 7) \<and> Ref 7 \<noteq> PyNone \<and> well_formed_result (Some ''data'', Ref 7)"
  using result_pair_shape [of 900 "Ref 100" "Some (find_vars_frame empty_target (Ref 7) (Some none_frame))" "Ref 7"
      "Some ''data''" "Ref 7"]
  by (simp add: find_variable_name_def final_frame_def own_frame_def find_vars_frame_def
      none_frame_def skip_frame_def startswith_def climb_frame_stack_pos_Some
      climb_frame_stack_pos_None same_object_def)

section \<open>Failure of the climb\<close>

text \<open>
  C5, as stated, fails: when every frame from the starting frame to the top of
  the stack is skipped, the climb raises, and the frame that is scanned is the
  starting frame, two levels above \<open>_find_variable_name\<close>, not the last frame
  the climb reached.
\<close>

theorem fallback_frame_is_not_last_reached:
  "list_all skip_frame (chain (Some nested_method_frame))
   \<and> climb_frame_stack (Suc 900) (Some nested_method_frame) = Inl AttributeError
   \<and> top_frame nested_method_frame = top_method_frame
   \<and> final_frame 900 (Ref 100) (Some (find_vars_frame empty_target (Ref 7) (Some nested_method_frame))) (Ref 7)
       \<noteq> Some (top_frame nested_method_frame)
   \<and> find_variable_name 900 (Ref 100) (Some (find_vars_frame empty_target (Ref 7) (Some nested_method_frame))) (Ref 7)
       = Inr (Some ''inner'', Ref 7)"
  by (simp add: find_variable_name_def final_frame_def own_frame_def find_vars_frame_def
      nested_method_frame_def top_method_frame_def skip_frame_def startswith_def same_object_def
      climb_frame_stack_pos_Some climb_frame_stack_pos_None)

text \<open>
  C5, amended. When every frame from the starting frame upwards is skipped, the
  climb raises, at the top of the stack or earlier at the recursion limit, and
  the frame used for the scan is the starting frame.
\<close>

theorem fallback_frame_is_start_frame:
  "list_all skip_frame (chain (Some start))
     \<Longrightarrow> climb_frame_stack (Suc headroom) (Some start)
           = Inl (if length (chain (Some start)) \<le> headroom then AttributeError
                  else RecursionError)
       \<and> final_frame headroom fid (Some (Frame ls nm (Some start))) var = Some start
       \<and> find_variable_name headroom fid (Some (Frame ls nm (Some start))) var
           = Inr (scan_locals var (f_locals start))"
proof -
  assume a: "list_all skip_frame (chain (Some start))"
  have c: "climb_frame_stack (Suc headroom) (Some start)
           = Inl (if length (chain (Some start)) \<le> headroom then AttributeError
                  else RecursionError)"
    using climb_frame_stack_all_skipped [OF a, of "Suc headroom"] by (simp add: less_Suc_eq_le)
  then have "final_frame headroom fid (Some (Frame ls nm (Some start))) var = Some start"
    by (simp only: final_frame_find_vars sum.case)
  with c show ?thesis by (simp add: find_variable_name_def)
qed

theorem fallback_frame_is_start_frame_witness:
  "list_all skip_frame (chain (Some nested_method_frame))
   \<and> climb_frame_stack (Suc 900) (Some nested_method_frame) = Inl AttributeError
   \<and> final_frame 900 (Ref 100) (Some (Frame [] ''find_vars'' (Some nested_method_frame))) (Ref 7)
       = Some nested_method_frame
   \<and> find_variable_name 900 (Ref 100) (Some (Frame [] ''find_vars'' (Some nested_method_frame))) (Ref 7)
       = Inr (Some ''inner'', Ref 7)"
  using fallback_frame_is_start_frame [of nested_method_frame 900 "Ref 100" "[]" "''find_vars''" "Ref 7"]
  by (simp add: nested_method_frame_def top_method_frame_def skip_frame_def startswith_def
      same_object_def)

text \<open>
  C4, as stated, fails: a climb that raises is absorbed, but the starting frame
  is then scanned, so the result can be a match and the match is registered.
\<close>

theorem climb_failure_can_match_and_register:
  "climb_frame_stack (Suc 900) (Some nested_method_frame) = Inl AttributeError
   \<and> find_variable_name 900 (Ref 100) (Some (find_vars_frame empty_target (Ref 7) (Some nested_method_frame))) (Ref 7)
       \<noteq> Inr (None, PyNone)
   \<and> find_vars 900 empty_target (Ref 100) (Some nested_method_frame) (Ref 7)
       = (Inr (Some ''inner''), empty_target\<lparr>added := [([''inner''], Ref 7)]\<rparr>)"
  by (simp add: find_vars_def find_variable_name_def final_frame_def own_frame_def find_vars_frame_def
      nested_method_frame_def top_method_frame_def skip_frame_def startswith_def same_object_def
      empty_target_def add_variable_def climb_frame_stack_pos_Some climb_frame_stack_pos_None)

text \<open>
  C4, amended. When \<open>find_vars\<close> has a caller and the climb from that caller
  raises, the failure is absorbed: nothing is raised and the caller's frame is
  scanned. The first name there that does not start with an underscore and is
  bound to the target is returned, and \<open>find_vars\<close> registers it with the
  target object under the one-element path of that name. The result is
  \<open>(None, None)\<close>, with the canvas target unchanged, exactly when that frame has
  no such binding.
\<close>

theorem climb_failure_absorbed:
  "climb_frame_stack (Suc headroom) (Some start) = Inl e
     \<Longrightarrow> find_variable_name headroom fid (Some (find_vars_frame tgt var (Some start))) var
           = Inr (scan_locals var (f_locals start))
       \<and> (f_locals start = pre @ (n, var) # post \<and> \<not> startswith n ''_''
            \<and> list_all (\<lambda>(k, v). startswith k ''_'' \<or> \<not> same_object var v) pre
            \<longrightarrow> find_variable_name headroom fid (Some (find_vars_frame tgt var (Some start))) var
                  = Inr (Some n, var)
              \<and> find_vars headroom tgt fid (Some start) var
                  = (Inr (Some n), tgt\<lparr>added := added tgt @ [([n], var)]\<rparr>))
       \<and> (find_vars headroom tgt fid (Some start) var = (Inr None, tgt)
            \<longleftrightarrow> list_all (\<lambda>(k, v). startswith k ''_'' \<or> \<not> same_object var v) (f_locals start))
       \<and> (find_variable_name headroom fid (Some (find_vars_frame tgt var (Some start))) var
              = Inr (None, PyNone)
            \<longleftrightarrow> list_all (\<lambda>(k, v). startswith k ''_'' \<or> \<not> same_object var v) (f_locals start))
       \<and> (\<forall>m. fst (find_vars headroom tgt fid (Some start) var) = Inr (Some m)
            \<longrightarrow> find_vars headroom tgt fid (Some start) var
                  = (Inr (Some m), tgt\<lparr>added := added tgt @ [([m], var)]\<rparr>))"
proof -
  assume f: "climb_frame_stack (Suc headroom) (Some start) = Inl e"
  let ?P = "\<lambda>(k, v). startswith k ''_'' \<or> \<not> same_object var v"
  let ?fvn = "find_variable_name headroom fid (Some (find_vars_frame tgt var (Some start))) var"
  let ?fv = "find_vars headroom tgt fid (Some start) var"
  from f have r: "?fvn = Inr (scan_locals var (f_locals start))"
    by (simp add: find_variable_name_def find_vars_frame_def final_frame_find_vars)
  have first: "?fvn = Inr (Some n, var)
      \<and> ?fv = (Inr (Some n), tgt\<lparr>added := added tgt @ [([n], var)]\<rparr>)"
    if "f_locals start = pre @ (n, var) # post" "\<not> startswith n ''_''" "list_all ?P pre"
  proof -
    from that have "scan_locals var (f_locals start) = (Some n, var)"
      by (simp add: scan_locals_first)
    with r show ?thesis by (simp add: find_vars_cases add_variable_def)
  qed
  have none: "?fv = (Inr None, tgt) \<longleftrightarrow> list_all ?P (f_locals start)"
  proof (cases "scan_locals var (f_locals start)")
    case (Pair name obj)
    with scan_locals_None_iff [of var "f_locals start"]
    have "name = None \<longleftrightarrow> list_all ?P (f_locals start)" by simp
    with Pair r show ?thesis by (cases name) (simp_all add: find_vars_cases)
  qed
  have none': "?fvn = Inr (None, PyNone) \<longleftrightarrow> list_all ?P (f_locals start)"
  proof (cases "scan_locals var (f_locals start)")
    case (Pair name obj)
    with scan_locals_None_iff [of var "f_locals start"]
    have n: "name = None \<longleftrightarrow> list_all ?P (f_locals start)" by simp
    from Pair scan_locals_None [of var "f_locals start" obj]
    have "name = None \<Longrightarrow> obj = PyNone" by simp
    with n Pair r show ?thesis by (cases name) auto
  qed
  have some: "\<forall>m. fst ?fv = Inr (Some m)
      \<longrightarrow> ?fv = (Inr (Some m), tgt\<lparr>added := added tgt @ [([m], var)]\<rparr>)"
  proof (cases "scan_locals var (f_locals start)")
    case (Pair name obj)
    show ?thesis
    proof (cases name)
      case None
      with Pair r show ?thesis by (simp add: find_vars_cases)
    next
      case (Some k)
      with Pair scan_locals_Some [of var "f_locals start" k obj] have "obj = var" by simp
      with Some Pair r show ?thesis by (simp add: find_vars_cases add_variable_def)
    qed
  qed
  from first have first':
    "f_locals start = pre @ (n, var) # post \<and> \<not> startswith n ''_'' \<and> list_all ?P pre
       \<longrightarrow> ?fvn = Inr (Some n, var)
         \<and> ?fv = (Inr (Some n), tgt\<lparr>added := added tgt @ [([n], var)]\<rparr>)"
    by (intro impI) (elim conjE)
  show ?thesis
    apply (intro conjI)
        apply (rule r)
       apply (rule first')
      apply (rule none)
     apply (rule none')
    apply (rule some)
    done
qed

theorem climb_failure_absorbed_witness:
  "climb_frame_stack (Suc 900) (Some nested_method_frame) = Inl AttributeError
   \<and> f_locals nested_method_frame = [(''self'', Ref 2)] @ (''inner'', Ref 7) # []
   \<and> \<not> startswith ''inner'' ''_''
   \<and> list_all (\<lambda>(k, v). startswith k ''_'' \<or> \<not> same_object (Ref 7) v) [(''self'', Ref 2)]
   \<and> find_vars 900 empty_target (Ref 100) (Some nested_method_frame) (Ref 7)
        = (Inr (Some ''inner''), empty_target\<lparr>added := added empty_target @ [([''inner''], Ref 7)]\<rparr>)
   \<and> list_all (\<lambda>(k, v). startswith k ''_'' \<or> \<not> same_object (Ref 9) v) (f_locals nested_method_frame)
   \<and> find_vars 900 empty_target (Ref 100) (Some nested_method_frame) (Ref 9) = (Inr None, empty_target)"
proof -
  have c: "climb_frame_stack (Suc 900) (Some nested_method_frame) = Inl AttributeError"
    by (simp add: nested_method_frame_def top_method_frame_def skip_frame_def
        climb_frame_stack_pos_Some climb_frame_stack_pos_None)
  have l: "f_locals nested_method_frame = [(''self'', Ref 2)] @ (''inner'', Ref 7) # []"
    by (simp add: nested_method_frame_def)
  have u: "\<not> startswith ''inner'' ''_''"
    by (simp add: startswith_def)
  have p7: "list_all (\<lambda>(k, v). startswith k ''_'' \<or> \<not> same_object (Ref 7) v) [(''self'', Ref 2)]"
    by (simp add: same_object_def)
  have p9: "list_all (\<lambda>(k, v). startswith k ''_'' \<or> \<not> same_object (Ref 9) v)
      (f_locals nested_method_frame)"
    by (simp add: nested_method_frame_def same_object_def)
  note found =
    climb_failure_absorbed [OF c, of "Ref 100" empty_target "Ref 7" "[(''self'', Ref 2)]"
      "''inner''" "[]", THEN conjunct2, THEN conjunct1]
  note not_found =
    climb_failure_absorbed [OF c, of "Ref 100" empty_target "Ref 9" "[]" "''z''" "[]",
      THEN conjunct2, THEN conjunct2, THEN conjunct1]
  from found l u p7
  have f7: "find_vars 900 empty_target (Ref 100) (Some nested_method_frame) (Ref 7)
        = (Inr (Some ''inner''), empty_target\<lparr>added := added empty_target @ [([''inner''], Ref 7)]\<rparr>)"
    by blast
  from not_found p9
  have f9: "find_vars 900 empty_target (Ref 100) (Some nested_method_frame) (Ref 9)
        = (Inr None, empty_target)"
    by blast
  from c l u p7 f7 p9 f9 show ?thesis by blast
qed

section \<open>Registration\<close>

text \<open>
  C7. A name found by \<open>_find_variable_name\<close> is returned by \<open>find_vars\<close> and
  registered with one call of \<open>add_variable\<close>, whose path is the one-element
  tuple of that name and whose object is the target object. When no name is
  found, \<open>None\<close> is returned, and when \<open>_find_variable_name\<close> raises, so does
  \<open>find_vars\<close>; in both cases the canvas target is untouched. Conversely the
  target changes only when a name is returned, and the value returned is the
  name alone.
\<close>

theorem sink_invoked_iff_name_resolved:
  "(find_variable_name headroom fid (Some (find_vars_frame tgt var caller)) var = Inr (Some n, v)
      \<longrightarrow> v = var
        \<and> find_vars headroom tgt fid caller var
            = (Inr (Some n), tgt\<lparr>added := added tgt @ [([n], var)]\<rparr>))
   \<and> (find_variable_name headroom fid (Some (find_vars_frame tgt var caller)) var = Inr (None, v)
      \<longrightarrow> find_vars headroom tgt fid caller var = (Inr None, tgt))
   \<and> (find_variable_name headroom fid (Some (find_vars_frame tgt var caller)) var = Inl e
      \<longrightarrow> find_vars headroom tgt fid caller var = (Inl e, tgt))
   \<and> (final_frame headroom fid (Some (find_vars_frame tgt var caller)) var = Some ff
        \<and> f_locals ff = pre @ (k, var) # post \<and> \<not> startswith k ''_''
        \<and> list_all (\<lambda>(k, v). startswith k ''_'' \<or> \<not> same_object var v) pre
      \<longrightarrow> find_vars headroom tgt fid caller var
            = (Inr (Some k), tgt\<lparr>added := added tgt @ [([k], var)]\<rparr>))
   \<and> (find_vars headroom tgt fid caller var = (res, tgt')
      \<longrightarrow> ((\<exists>m. res = Inr (Some m)) \<longleftrightarrow> added tgt' \<noteq> added tgt)
        \<and> (\<forall>m. res = Inr (Some m) \<longrightarrow>
              find_variable_name headroom fid (Some (find_vars_frame tgt var caller)) var
                = Inr (Some m, var)
              \<and> tgt' = tgt\<lparr>added := added tgt @ [([m], var)]\<rparr>)
        \<and> ((\<forall>m. res \<noteq> Inr (Some m)) \<longrightarrow> tgt' = tgt)
        \<and> (res = Inr None \<longleftrightarrow>
              find_variable_name headroom fid (Some (find_vars_frame tgt var caller)) var
                = Inr (None, PyNone)))"
proof -
  let ?r = "find_variable_name headroom fid (Some (find_vars_frame tgt var caller)) var"
  let ?fv = "find_vars headroom tgt fid caller var"
  have a: "?r = Inr (Some n, v)
      \<longrightarrow> v = var \<and> ?fv = (Inr (Some n), tgt\<lparr>added := added tgt @ [([n], var)]\<rparr>)"
    by (auto simp: find_vars_cases add_variable_def dest: find_variable_name_Some)
  have b: "?r = Inr (None, v) \<longrightarrow> ?fv = (Inr None, tgt)"
    by (simp add: find_vars_cases)
  have c: "?r = Inl e \<longrightarrow> ?fv = (Inl e, tgt)"
    by (simp add: find_vars_cases)
  have d: "final_frame headroom fid (Some (find_vars_frame tgt var caller)) var = Some ff
        \<and> f_locals ff = pre @ (k, var) # post \<and> \<not> startswith k ''_''
        \<and> list_all (\<lambda>(k, v). startswith k ''_'' \<or> \<not> same_object var v) pre
      \<longrightarrow> ?fv = (Inr (Some k), tgt\<lparr>added := added tgt @ [([k], var)]\<rparr>)"
    by (simp add: find_vars_cases find_variable_name_def scan_locals_first add_variable_def)
  have e: "?fv = (res, tgt')
      \<longrightarrow> ((\<exists>m. res = Inr (Some m)) \<longleftrightarrow> added tgt' \<noteq> added tgt)
        \<and> (\<forall>m. res = Inr (Some m) \<longrightarrow>
              ?r = Inr (Some m, var) \<and> tgt' = tgt\<lparr>added := added tgt @ [([m], var)]\<rparr>)
        \<and> ((\<forall>m. res \<noteq> Inr (Some m)) \<longrightarrow> tgt' = tgt)
        \<and> (res = Inr None \<longleftrightarrow> ?r = Inr (None, PyNone))"
  proof (cases ?r)
    case (Inl x)
    then show ?thesis by (auto simp: find_vars_cases)
  next
    case (Inr p)
    obtain name obj where p: "p = (name, obj)" by (cases p)
    show ?thesis
    proof (cases name)
      case None
      with Inr p have "obj = PyNone" by (auto dest: find_variable_name_None)
      with None Inr p show ?thesis by (auto simp: find_vars_cases)
    next
      case (Some m)
      with Inr p have "obj = var" by (auto dest: find_variable_name_Some)
      with Some Inr p show ?thesis by (auto simp: find_vars_cases add_variable_def)
    qed
  qed
  show ?thesis
    apply (intro conjI)
        apply (rule a)
       apply (rule b)
      apply (rule c)
     apply (rule d)
    apply (rule e)
    done
qed

theorem sink_invoked_iff_name_resolved_witness:
  "find_variable_name 900 (Ref 100)
       (Some (find_vars_frame empty_target (Ref 7) (Some inner_method_frame))) (Ref 7)
     = Inr (Some ''data'', Ref 7)
   \<and> find_vars 900 empty_target (Ref 100) (Some inner_method_frame) (Ref 7)
     = (Inr (Some ''data''), empty_target\<lparr>added := added empty_target @ [([''data''], Ref 7)]\<rparr>)
   \<and> find_variable_name 900 (Ref 100)
       (Some (find_vars_frame empty_target (Ref 9) (Some inner_method_frame))) (Ref 9)
     = Inr (None, PyNone)
   \<and> find_vars 900 empty_target (Ref 100) (Some inner_method_frame) (Ref 9) = (Inr None, empty_target)"
proof -
  have a: "find_variable_name 900 (Ref 100)
       (Some (find_vars_frame empty_target (Ref 7) (Some inner_method_frame))) (Ref 7)
     = Inr (Some ''data'', Ref 7)"
    by (simp add: find_variable_name_def final_frame_def own_frame_def
        find_vars_frame_def inner_method_frame_def method_frame_def show_frame_def user_frame_def
        skip_frame_def startswith_def same_object_def climb_frame_stack_pos_Some
        climb_frame_stack_pos_None)
  have b: "find_variable_name 900 (Ref 100)
       (Some (find_vars_frame empty_target (Ref 9) (Some inner_method_frame))) (Ref 9)
     = Inr (None, PyNone)"
    by (simp add: find_variable_name_def final_frame_def own_frame_def
        find_vars_frame_def inner_method_frame_def method_frame_def show_frame_def user_frame_def
        skip_frame_def startswith_def same_object_def climb_frame_stack_pos_Some
        climb_frame_stack_pos_None)
  note found =
    sink_invoked_iff_name_resolved [of 900 "Ref 100" empty_target "Ref 7" "Some inner_method_frame" "''data''" "Ref 7",
      THEN conjunct1]
  note not_found =
    sink_invoked_iff_name_resolved [of 900 "Ref 100" empty_target "Ref 9" "Some inner_method_frame" "''data''" PyNone,
      THEN conjunct2, THEN conjunct1]
  from found a
  have f7: "find_vars 900 empty_target (Ref 100) (Some inner_method_frame) (Ref 7)
     = (Inr (Some ''data''), empty_target\<lparr>added := added empty_target @ [([''data''], Ref 7)]\<rparr>)"
    by blast
  from not_found b
  have f9: "find_vars 900 empty_target (Ref 100) (Some inner_method_frame) (Ref 9)
     = (Inr None, empty_target)"
    by blast
  from a f7 b f9 show ?thesis by blast
qed

section \<open>Termination of the climb\<close>

text \<open>
  C9. Each recursive call of the climb is on a strictly shorter chain of frames,
  and a number of calls above the length of the chain is enough for the climb to
  return its result; the frame chosen by \<open>_find_variable_name\<close> comes from a
  climb that returns within that many calls.
\<close>

theorem climb_bounded_by_stack_depth:
  "length (chain (f_back fr)) < length (chain (Some fr))
   \<and> (length (chain c) < n \<longrightarrow> climb_fuel n calls c = Some (climb_frame_stack calls c))
   \<and> (\<exists>r. climb_fuel (Suc (length (chain c))) (Suc headroom) c = Some r
          \<and> final_frame headroom fid (Some (Frame ls nm c)) var
              = (case r of Inl e \<Rightarrow> c | Inr ff \<Rightarrow> Some ff))"
proof -
  have "climb_fuel (Suc (length (chain c))) (Suc headroom) c
      = Some (climb_frame_stack (Suc headroom) c)"
    by (rule climb_fuel_enough) simp
  then show ?thesis
    by (simp add: chain_f_back_shorter climb_fuel_enough final_frame_find_vars)
qed

theorem climb_bounded_by_stack_depth_witness:
  "length (chain (Some inner_method_frame)) < 5
   \<and> climb_fuel 5 901 (Some inner_method_frame) = Some (Inr user_frame)
   \<and> climb_frame_stack 901 (Some inner_method_frame) = Inr user_frame"
proof -
  have l: "length (chain (Some inner_method_frame)) < 5"
    by (simp add: inner_method_frame_def method_frame_def show_frame_def user_frame_def)
  have c: "climb_frame_stack 901 (Some inner_method_frame) = Inr user_frame"
    by (simp add: inner_method_frame_def method_frame_def show_frame_def user_frame_def
        skip_frame_def climb_frame_stack_pos_Some climb_frame_stack_pos_None)
  note fuel =
    climb_bounded_by_stack_depth [of inner_method_frame "Some inner_method_frame" 5 901 900 "Ref 100" "[]"
      "''find_vars''" "Ref 7", THEN conjunct2, THEN conjunct1]
  from fuel l have "climb_fuel 5 901 (Some inner_method_frame)
      = Some (climb_frame_stack 901 (Some inner_method_frame))"
    by blast
  with l c show ?thesis by simp
qed

section \<open>Submitting a training job\<close>

text \<open>
  C10. \<open>submit_training_job\<close> makes one call of \<open>_sl.create\<close>: with the data set,
  the target column and the fixed model name \<open>classifier_logistic_regression\<close>
  as positional arguments and every hyperparameter passed on unchanged under its
  own keyword, except the solver name, which is lowercased: in a name of ASCII
  characters each capital letter, of code 65 to 90, is replaced by the letter 32
  codes higher and the others are kept, and any other name is replaced by its
  Unicode lowercase. The function returns what that call returns.
\<close>

theorem submit_training_job_forwards:
  "(case submit_training_job unicode_lower sl_create p of
      (calls, r) \<Rightarrow>
        (case filter is_create calls of
           [SlCreate args kw] \<Rightarrow>
             args = [Obj (dataset p), Obj (target p), Str ''classifier_logistic_regression'']
             \<and> r = sl_create args kw
             \<and> map fst kw = [''env'', ''features'', ''validation_set'', ''l2_penalty'',
                  ''l1_penalty'', ''feature_rescaling'', ''convergence_threshold'', ''step_size'',
                  ''solver'', ''lbfgs_memory_level'', ''max_iterations'', ''class_weights'']
             \<and> (case map_of kw ''solver'' of
                    Some (Str s) \<Rightarrow>
                      (if list_all (\<lambda>c. (of_char c :: nat) < 128) (solver p)
                       then map of_char s
                            = map (\<lambda>c. if 65 \<le> (of_char c :: nat) \<and> (of_char c :: nat) \<le> 90
                                        then of_char c + 32 else (of_char c :: nat)) (solver p)
                       else s = unicode_lower (solver p))
                  | _ \<Rightarrow> False)
             \<and> map_of kw ''env'' = Some (Obj (env p))
             \<and> map_of kw ''features'' = Some (Obj (features p))
             \<and> map_of kw ''validation_set'' = Some (Obj (validation_set p))
             \<and> map_of kw ''l2_penalty'' = Some (Obj (l2_penalty p))
             \<and> map_of kw ''l1_penalty'' = Some (Obj (l1_penalty p))
             \<and> map_of kw ''feature_rescaling'' = Some (Obj (feature_rescaling p))
             \<and> map_of kw ''convergence_threshold'' = Some (Obj (convergence_threshold p))
             \<and> map_of kw ''step_size'' = Some (Obj (step_size p))
             \<and> map_of kw ''lbfgs_memory_level'' = Some (Obj (lbfgs_memory_level p))
             \<and> map_of kw ''max_iterations'' = Some (Obj (max_iterations p))
             \<and> map_of kw ''class_weights'' = Some (Obj (class_weights p))
         | _ \<Rightarrow> False))"
proof -
  have s: "(if list_all (\<lambda>c. (of_char c :: nat) < 128) (solver p)
            then map of_char (lower unicode_lower (solver p))
                 = map (\<lambda>c. if 65 \<le> (of_char c :: nat) \<and> (of_char c :: nat) \<le> 90
                             then of_char c + 32 else (of_char c :: nat)) (solver p)
            else lower unicode_lower (solver p) = unicode_lower (solver p))"
    using lower_ascii [of "solver p" unicode_lower] lower_not_ascii [of "solver p" unicode_lower]
    unfolding is_ascii_eq by simp
  show ?thesis
    unfolding submit_training_job_def Let_def
    using s by simp
qed

theorem submit_training_job_forwards_witness:
  "snd (submit_training_job example_unicode_lower
          (\<lambda>args kw. (args, map_of kw ''solver'', map_of kw ''max_iterations'')) example_job)
     = ([Obj (Ref 2), Obj (Ref 3), Str ''classifier_logistic_regression''],
        Some (Str ''lbfgs''), Some (Obj (Ref 10)))
   \<and> snd (submit_training_job example_unicode_lower
          (\<lambda>args kw. (args, map_of kw ''solver'', map_of kw ''max_iterations''))
          (example_job\<lparr>solver := [CHR 0xC3, CHR 0x89, CHR ''Z'']\<rparr>))
     = ([Obj (Ref 2), Obj (Ref 3), Str ''classifier_logistic_regression''],
        Some (Str [CHR 0xC3, CHR 0xA9, CHR ''z'']), Some (Obj (Ref 10)))"
proof -
  have l: "lower example_unicode_lower ''LBFGS'' = ''lbfgs''"
    by (simp add: lower_def lower_char_def capitals_def smalls_def is_ascii_def)
  have u: "lower example_unicode_lower [CHR 0xC3, CHR 0x89, CHR ''Z''] = [CHR 0xC3, CHR 0xA9, CHR ''z'']"
    by (simp add: lower_def example_unicode_lower_def is_ascii_def)
  show ?thesis
    using submit_training_job_forwards [where unicode_lower = example_unicode_lower
        and sl_create = "\<lambda>args kw. (args, map_of kw ''solver'', map_of kw ''max_iterations'')"
        and p = example_job]
    by (simp add: submit_training_job_def Let_def example_job_def l u)
qed

end
